theory Spec2Isabelle
  imports Main
begin

section \<open>Values\<close>

text \<open>
  JSON data as it travels in request bodies and responses. Object members are kept as
  an association list, in the order in which the members were inserted.
\<close>

datatype json =
    JNull
  | JBool bool
  | JNum int
  | JStr string
  | JArr "json list"
  | JObj "(string \<times> json) list"

text \<open>
  The scalar values that a selector of a context can hold: \<open>null\<close>, a boolean, a number
  (\<open>JsNum n\<close> for an integer \<open>n\<close> of magnitude below \<open>2^53\<close>, which a number holds exactly and
  prints in decimal) or a string. \<open>truthy\<close> is the test \<open>if(v)\<close>: \<open>null\<close>, \<open>false\<close>, \<open>0\<close>
  and the empty string are falsy. \<open>digits\<close> is the decimal text of a natural number, and
  \<open>js_text\<close> is the text of a value inside a template literal.
\<close>

datatype jsval = JsNull | JsBool bool | JsNum int | JsStr string

fun truthy :: "jsval \<Rightarrow> bool" where
  "truthy JsNull = False"
| "truthy (JsBool b) = b"
| "truthy (JsNum n) = (n \<noteq> 0)"
| "truthy (JsStr s) = (s \<noteq> [])"

fun digits :: "nat \<Rightarrow> string" where
  "digits n =
     (if n < 10 then [''0123456789'' ! n]
      else digits (n div 10) @ [''0123456789'' ! (n mod 10)])"

declare digits.simps [simp del]

fun js_text :: "jsval \<Rightarrow> string" where
  "js_text JsNull = ''null''"
| "js_text (JsBool b) = (if b then ''true'' else ''false'')"
| "js_text (JsNum n) = (if n < 0 then ''-'' @ digits (nat (- n)) else digits (nat n))"
| "js_text (JsStr s) = s"

text \<open>
  An insertion-ordered map (Immutable's \<open>OrderedMap\<close>): setting a key that is present
  replaces its value in place, setting a new key appends it. \<open>omap_merge m n\<close> sets the
  entries of \<open>n\<close> into \<open>m\<close> one after another, which is what \<open>merge\<close>, \<open>mergeIn\<close> and lodash's
  \<open>_.extend\<close> do.
\<close>

fun omap_set :: "'k \<Rightarrow> 'v \<Rightarrow> ('k \<times> 'v) list \<Rightarrow> ('k \<times> 'v) list" where
  "omap_set k v [] = [(k, v)]"
| "omap_set k v (p # ps) = (if fst p = k then (k, v) # ps else p # omap_set k v ps)"

fun omap_merge :: "('k \<times> 'v) list \<Rightarrow> ('k \<times> 'v) list \<Rightarrow> ('k \<times> 'v) list" where
  "omap_merge m [] = m"
| "omap_merge m (p # ps) = omap_merge (omap_set (fst p) (snd p) m) ps"

text \<open>
  A plain object does not enumerate its properties in insertion order: the keys that are
  array indices (the decimal text, without leading zeros, of an integer from \<open>0\<close> to
  \<open>2^32 - 2\<close>) come first, in ascending numeric order, and the other keys follow in
  insertion order. \<open>js_object\<close> is the enumeration of the plain object made from an ordered
  map by \<open>toJS\<close>, \<open>toJSON\<close> or \<open>_.extend\<close>, or written as an object literal.
\<close>

definition is_digit :: "char \<Rightarrow> bool" where
  "is_digit c = (c \<in> set ''0123456789'')"

definition digit_value :: "char \<Rightarrow> int" where
  "digit_value c = int (length (takeWhile (\<lambda>d. d \<noteq> c) ''0123456789''))"

definition digits_value :: "string \<Rightarrow> int" where
  "digits_value k = foldl (\<lambda>a c. 10 * a + digit_value c) 0 k"

definition is_array_index :: "string \<Rightarrow> bool" where
  "is_array_index k =
     (case k of
        [] \<Rightarrow> False
      | c # cs \<Rightarrow>
          list_all is_digit k \<and> (cs = [] \<or> c \<noteq> CHR ''0'') \<and> digits_value k < 4294967295)"

definition js_object :: "(string \<times> 'v) list \<Rightarrow> (string \<times> 'v) list" where
  "js_object kvs =
     sort_key (\<lambda>kv. digits_value (fst kv)) (filter (\<lambda>kv. is_array_index (fst kv)) kvs)
       @ filter (\<lambda>kv. \<not> is_array_index (fst kv)) kvs"

text \<open>\<open>Array.prototype.join\<close>.\<close>

fun join :: "string \<Rightarrow> string list \<Rightarrow> string" where
  "join sep [] = []"
| "join sep [x] = x"
| "join sep (x # y # ys) = x @ sep @ join sep (y # ys)"

text \<open>lodash's \<open>_.escape\<close>: the five characters \<open>& < > " '\<close> become HTML entities.\<close>

definition escape_char :: "char \<Rightarrow> string" where
  "escape_char c =
     (if c = CHR ''&'' then ''&amp;''
      else if c = CHR ''<'' then ''&lt;''
      else if c = CHR ''>'' then ''&gt;''
      else if c = CHR 0x22 then ''&quot;''
      else if c = CHR 0x27 then ''&#39;''
      else [c])"

definition escape :: "string \<Rightarrow> string" where
  "escape s = concat (map escape_char s)"

text \<open>
  \<open>responseFormat\<close>: \<open>_.map\<close> walks the properties of the plain object of format options,
  every one is rendered as \<open>escape(k)=escape(v)\<close>, and the renderings are joined by \<open>;\<close>.
  The argument is the ordered map \<open>params\<close>, of which \<open>calculateUrl\<close> passes on the plain
  object made by \<open>toJS\<close>. The values of the format options are strings.
\<close>

definition responseFormat :: "(string \<times> string) list \<Rightarrow> string" where
  "responseFormat fmt =
     join '';'' (map (\<lambda>(k, v). escape k @ ''='' @ escape v) (js_object fmt))"

section \<open>QuerySet\<close>

text \<open>
  A \<open>QuerySet\<close> wraps one ordered map \<open>q\<close>. \<open>value_q\<close> is the method \<open>value(cook)\<close>: cooked,
  the members \<open>flt agg geo keys\<close> that are present are serialised to JSON text and the
  members \<open>index start limit end\<close> that are present pass through as they are, in that
  order; uncooked, the plain object of the whole map is returned. \<open>JSON.stringify\<close> is a
  parameter.
\<close>

record queryset =
  q :: "(string \<times> json) list"

definition initialQuery :: "(string \<times> json) list" where
  "initialQuery = []"

definition new_QuerySet :: queryset where
  "new_QuerySet = \<lparr> q = initialQuery \<rparr>"

definition start :: "json \<Rightarrow> queryset \<Rightarrow> queryset" where
  "start x this = \<lparr> q = omap_set ''start'' x (q this) \<rparr>"

definition limit_q :: "json \<Rightarrow> queryset \<Rightarrow> queryset" where
  "limit_q x this = \<lparr> q = omap_set ''limit'' x (q this) \<rparr>"

definition cook_props :: "(json \<Rightarrow> json) \<Rightarrow> string list \<Rightarrow> (string \<times> json) list
    \<Rightarrow> (string \<times> json) list \<Rightarrow> (string \<times> json) list" where
  "cook_props f props m ret =
     fold (\<lambda>p r. case map_of m p of None \<Rightarrow> r | Some v \<Rightarrow> omap_set p (f v) r) props ret"

definition value_q :: "(json \<Rightarrow> string) \<Rightarrow> bool \<Rightarrow> queryset \<Rightarrow> (string \<times> json) list" where
  "value_q stringify cook this =
     (if cook then
        (let jsonProps = [''flt'', ''agg'', ''geo'', ''keys''];
             bareProps = [''index'', ''start'', ''limit'', ''end''];
             ret = cook_props (\<lambda>v. JStr (stringify v)) jsonProps (q this) []
         in cook_props (\<lambda>v. v) bareProps (q this) ret)
      else js_object (q this))"

section \<open>The request context\<close>

text \<open>
  The \<open>url\<close> field of a context normally holds a string. \<open>UrlRec\<close> is a context record
  stored in that field; it is represented by the string in its own \<open>url\<close> field.
\<close>

datatype urlval = UrlStr string | UrlRec string

datatype optval =
    OptStr string
  | OptBool bool
  | OptBody "string option"
  | OptHeaders "(string \<times> string) list"
  | OptJson json

record robust_opts =
  maxTries :: nat
  refetchDelay :: nat
  pingPath :: string

text \<open>
  The fields of \<open>DefaultContext\<close>, without \<open>api\<close>, which no method reads. The four
  selectors hold scalar values, \<open>null\<close> when nothing is selected; the port and the format
  option values are held in their textual form. The methods of the class that share a
  name with a field carry the suffix \<open>_m\<close> below.
\<close>

record sondra =
  protocol :: string
  host :: string
  port :: string
  mode :: string
  compress :: bool
  url :: urlval
  basePath :: "string list"
  headers :: "(string \<times> string) list"
  additionalRequestOptions :: "(string \<times> optval) list"
  requestMethod :: string
  suite :: "string option"
  app :: jsval
  collection :: jsval
  document :: jsval
  "method" :: jsval
  params :: "(string \<times> string) list"
  body :: "(string \<times> json) list"
  querySet :: queryset
  robust :: robust_opts

definition REFETCH_MILLISEC :: nat where
  "REFETCH_MILLISEC = 1500"

definition DEFAULT_MAX_TRIES :: nat where
  "DEFAULT_MAX_TRIES = 10"

definition DefaultBasePath :: "string list" where
  "DefaultBasePath = [''api'']"

definition DefaultContext :: sondra where
  "DefaultContext =
     \<lparr> protocol = ''https'', host = ''localhost'', port = ''443'', mode = ''cors'',
       compress = True, url = UrlStr '''', basePath = DefaultBasePath, headers = [],
       additionalRequestOptions = [], requestMethod = ''GET'', suite = None, app = JsNull,
       collection = JsNull, document = JsNull, method = JsNull,
       params = [(''format'', ''json'')], body = [], querySet = new_QuerySet,
       robust = \<lparr> maxTries = DEFAULT_MAX_TRIES, refetchDelay = REFETCH_MILLISEC,
                  pingPath = ''/ping'' \<rparr> \<rparr>"

text \<open>
  \<open>calculateUrl\<close> builds the URL text from the fields and returns the context with that
  string in its \<open>url\<close> field.
\<close>

definition calculateUrl :: "sondra \<Rightarrow> sondra" where
  "calculateUrl this =
     (let openingPath = join ''/'' (basePath this);
          url0 = protocol this @ ''://'' @ host this @ '':'' @ port this @ ''/'' @ openingPath;
          url1 = (if truthy (app this) then url0 @ ''/'' @ js_text (app this) else url0);
          url2 = (if truthy (collection this) then url1 @ ''/'' @ js_text (collection this)
                  else url1);
          url3 = (if truthy (document this) then url2 @ ''/'' @ js_text (document this) else url2);
          url4 = (if truthy (method this) then url3 @ ''.'' @ js_text (method this) else url3);
          url5 = url4 @ '';'' @ responseFormat (params this)
      in this\<lparr> url := UrlStr url5 \<rparr>)"

text \<open>
  \<open>suite\<close> merges protocol, host and port only (its \<open>basePath\<close> argument is not used), and
  then does \<open>s.set('url', s.calculateUrl())\<close>: what it stores into \<open>url\<close> is the context
  that \<open>calculateUrl\<close> returns.
\<close>

definition suite_m :: "string \<Rightarrow> string \<Rightarrow> string \<Rightarrow> string list \<Rightarrow> sondra \<Rightarrow> sondra" where
  "suite_m protocol' host' port' basePath' this =
     (let s = this\<lparr> protocol := protocol', host := host', port := port' \<rparr>
      in s\<lparr> url := (case url (calculateUrl s) of UrlStr u \<Rightarrow> UrlRec u | UrlRec u \<Rightarrow> UrlRec u) \<rparr>)"

definition app_m :: "jsval \<Rightarrow> sondra \<Rightarrow> sondra" where
  "app_m name this =
     calculateUrl (this\<lparr> app := name, collection := JsNull, document := JsNull,
                        method := JsNull, body := [] \<rparr>)"

definition collection_m :: "jsval \<Rightarrow> sondra \<Rightarrow> sondra" where
  "collection_m name this =
     calculateUrl (this\<lparr> collection := name, document := JsNull, method := JsNull,
                        body := [] \<rparr>)"

definition document_m :: "jsval \<Rightarrow> sondra \<Rightarrow> sondra" where
  "document_m pk this =
     calculateUrl (this\<lparr> document := pk, method := JsNull, body := [] \<rparr>)"

definition method_m :: "jsval \<Rightarrow> sondra \<Rightarrow> sondra" where
  "method_m name this =
     calculateUrl (this\<lparr> requestMethod := ''POST'', method := name, body := [] \<rparr>)"

definition auth :: "string \<Rightarrow> sondra \<Rightarrow> sondra" where
  "auth token this =
     this\<lparr> headers := omap_set ''Authorization'' (''Bearer '' @ token) (headers this) \<rparr>"

definition format :: "string \<Rightarrow> (string \<times> string) list \<Rightarrow> sondra \<Rightarrow> sondra" where
  "format name options this =
     calculateUrl
       (this\<lparr> params := omap_merge (omap_set ''format'' name (params this)) (js_object options) \<rparr>)"

definition requestMethod_m :: "string \<Rightarrow> sondra \<Rightarrow> sondra" where
  "requestMethod_m m this = this\<lparr> requestMethod := m \<rparr>"

definition query :: "queryset \<Rightarrow> sondra \<Rightarrow> sondra" where
  "query qs this = this\<lparr> querySet := qs \<rparr>"

subsection \<open>Navigation sequences and the URL layout\<close>

text \<open>
  A navigation sequence is a list of selections and format settings, applied to a context
  from left to right.
\<close>

datatype nav =
    App jsval
  | Collection jsval
  | Document jsval
  | Method jsval
  | Format string "(string \<times> string) list"

fun nav_step :: "nav \<Rightarrow> sondra \<Rightarrow> sondra" where
  "nav_step (App name) c = app_m name c"
| "nav_step (Collection name) c = collection_m name c"
| "nav_step (Document pk) c = document_m pk c"
| "nav_step (Method name) c = method_m name c"
| "nav_step (Format name options) c = format name options c"




text \<open>
  The same layout with two changes: a selector gives a segment when its value is none of
  \<open>null\<close>, \<open>false\<close>, \<open>0\<close> and the empty string, and the format parameters come in the order
  in which the plain object of the parameters enumerates them, the keys that are array
  indices first and ascending, the other keys after them in insertion order.
\<close>

definition segment :: "string \<Rightarrow> jsval \<Rightarrow> string" where
  "segment sep v =
     (if v = JsNull then [] else if v = JsBool False then [] else if v = JsNum 0 then []
      else if v = JsStr [] then [] else sep @ js_text v)"

definition url_layout :: "sondra \<Rightarrow> string" where
  "url_layout c =
     protocol c @ ''://'' @ host c @ '':'' @ port c @ ''/''
       @ join ''/'' (basePath c)
       @ segment ''/'' (app c) @ segment ''/'' (collection c) @ segment ''/'' (document c)
       @ segment ''.'' (method c)
       @ '';'' @ join '';''
           (map (\<lambda>kv. escape (fst kv) @ ''='' @ escape (snd kv)) (js_object (params c)))"

section \<open>Building a request\<close>

text \<open>
  The transient context of \<open>call\<close> and \<open>robustCall\<close> is merged into the context for one
  call. Only the fields that the two methods read from the merged record are kept here;
  a field that is absent from the transient object is \<open>None\<close>.
\<close>

record transient =
  t_url :: "urlval option"
  t_headers :: "(string \<times> string) list option"
  t_requestMethod :: "string option"
  t_mode :: "string option"
  t_compress :: "bool option"
  t_additionalRequestOptions :: "(string \<times> optval) list option"
  t_body :: "(string \<times> json) list option"
  t_querySet :: "queryset option"
  t_robust :: "robust_opts option"

definition no_transient :: transient where
  "no_transient =
     \<lparr> t_url = None, t_headers = None, t_requestMethod = None, t_mode = None,
       t_compress = None, t_additionalRequestOptions = None, t_body = None,
       t_querySet = None, t_robust = None \<rparr>"

definition override :: "'a option \<Rightarrow> 'a \<Rightarrow> 'a" where
  "override ov v = (case ov of None \<Rightarrow> v | Some v' \<Rightarrow> v')"

definition merge_t :: "sondra \<Rightarrow> transient \<Rightarrow> sondra" where
  "merge_t this tc =
     this\<lparr> url := override (t_url tc) (url this),
           headers := override (t_headers tc) (headers this),
           requestMethod := override (t_requestMethod tc) (requestMethod this),
           mode := override (t_mode tc) (mode this),
           compress := override (t_compress tc) (compress this),
           additionalRequestOptions :=
             override (t_additionalRequestOptions tc) (additionalRequestOptions this),
           body := override (t_body tc) (body this),
           querySet := override (t_querySet tc) (querySet this),
           robust := override (t_robust tc) (robust this) \<rparr>"

text \<open>
  The two serialisers of the platform, \<open>JSON.stringify\<close> and the text of a
  \<open>URLSearchParams\<close> filled by \<open>append\<close>, are parameters of the model. So is what lodash's
  \<open>_.size\<close> gives for the Immutable map held in \<open>body\<close>, which \<open>robustCall\<close> tests: lodash
  reads the \<open>length\<close> of a collection that has one, and counts the own properties of the
  object otherwise. A map of the Immutable 3 releases answers \<open>length\<close> with its size; a map
  without \<open>length\<close> has own properties whatever it holds, and its \<open>_.size\<close> is never 0. The
  sources do not say which release is in use. Of a plain object, as in \<open>call\<close>, \<open>_.size\<close> is
  the number of properties.
\<close>

record lib =
  JSON_stringify :: "json \<Rightarrow> string"
  URLSearchParams_toString :: "(string \<times> json) list \<Rightarrow> string"
  size_of_map :: "(string \<times> json) list \<Rightarrow> nat"

text \<open>
  A request as the methods compute it: \<open>requestUrl\<close> is the \<open>url\<close> field, with
  \<open>"?" + query\<close> appended when \<open>req_query\<close> is \<open>Some query\<close>, and \<open>requestOptions\<close>.
\<close>

record request =
  req_url :: urlval
  req_query :: "string option"
  req_options :: "(string \<times> optval) list"

text \<open>
  \<open>call\<close>, up to the \<open>fetch\<close>: the body fields are extended by the rendered QuerySet,
  cooked for a JSON payload and uncooked for the query string of a \<open>GET\<close>. The computed
  options are merged into \<open>additionalRequestOptions\<close>. The \<open>Headers\<close> object that both
  methods fill is not passed on, the options carry the \<open>headers\<close> field itself.
\<close>

definition call_request :: "lib \<Rightarrow> sondra \<Rightarrow> transient \<Rightarrow> request" where
  "call_request l this tc =
     (let m = merge_t this tc in
      if requestMethod m \<noteq> ''GET'' then
        (let queryBody = js_object (omap_merge (omap_merge [] (js_object (body m)))
                                      (value_q (JSON_stringify l) True (querySet m)));
             requestBody = (if length queryBody = 0 then None
                            else Some (JSON_stringify l (JObj queryBody)))
         in \<lparr> req_url = url m, req_query = None,
              req_options = omap_merge (additionalRequestOptions m)
                [(''method'', OptStr (requestMethod m)), (''body'', OptBody requestBody),
                 (''mode'', OptStr (mode m)), (''compress'', OptBool (compress m)),
                 (''headers'', OptHeaders (headers m))] \<rparr>)
      else
        (let queryBody = js_object (omap_merge (omap_merge [] (js_object (body m)))
                                      (value_q (JSON_stringify l) False (querySet m)));
             requestBody = URLSearchParams_toString l queryBody
         in \<lparr> req_url = url m, req_query = Some requestBody,
              req_options = omap_merge (additionalRequestOptions m)
                [(''method'', OptStr (requestMethod m)),
                 (''mode'', OptStr (mode m)), (''compress'', OptBool (compress m)),
                 (''headers'', OptHeaders (headers m))] \<rparr>))"

text \<open>
  \<open>robustCall\<close>, up to the probe: the same construction from the body fields alone.
  \<open>_.size\<close> is applied to the map itself, and \<open>JSON.stringify\<close> and \<open>toJS\<close> turn the map into
  its plain object. The \<open>requestUrl\<close> computed here is not the one fetched: \<open>robustCall\<close>
  fetches \<open>url\<close>.
\<close>

definition robust_request :: "lib \<Rightarrow> sondra \<Rightarrow> transient \<Rightarrow> request" where
  "robust_request l this tc =
     (let m = merge_t this tc in
      if requestMethod m \<noteq> ''GET'' then
        (let requestBody = (if size_of_map l (body m) = 0 then None
                            else Some (JSON_stringify l (JObj (js_object (body m)))))
         in \<lparr> req_url = url m, req_query = None,
              req_options = omap_merge (additionalRequestOptions m)
                [(''method'', OptStr (requestMethod m)), (''body'', OptBody requestBody),
                 (''mode'', OptStr (mode m)), (''compress'', OptBool (compress m)),
                 (''headers'', OptHeaders (headers m))] \<rparr>)
      else
        (let requestBody = URLSearchParams_toString l (js_object (body m))
         in \<lparr> req_url = url m, req_query = Some requestBody,
              req_options = omap_merge (additionalRequestOptions m)
                [(''method'', OptStr (requestMethod m)),
                 (''mode'', OptStr (mode m)), (''compress'', OptBool (compress m)),
                 (''headers'', OptHeaders (headers m))] \<rparr>))"

section \<open>Responses and the single attempt\<close>

text \<open>
  An error value with its \<open>status\<close> property when it has one. What \<open>fetch\<close> gives back for
  one request: a response with its status and the result of \<open>rsp.json()\<close> (a parse error
  or the data), or no response at all. \<open>rsp.ok\<close> holds for the statuses 200 to 299.
\<close>

record jserror =
  message :: string
  status :: "nat option"

datatype fetch_result =
    Response nat "jserror + json"
  | NoResponse jserror

definition rsp_ok :: "nat \<Rightarrow> bool" where
  "rsp_ok st = (200 \<le> st \<and> st \<le> 299)"

text \<open>
  What a promise chain can be rejected with inside \<open>call\<close>: the array \<open>[status, err]\<close>
  built for a failure status, or an error value. \<open>call\<close> returns
  \<open>fetch(...).then(A).catch(B)\<close>: \<open>A\<close> gives the parsed body or rejects with
  \<open>[rsp.status, err]\<close>, and \<open>B\<close> then receives every rejection of what precedes it, the
  one made by \<open>A\<close> included, and rejects with \<open>[0, err]\<close>.
\<close>

datatype thrown = StatusPair nat json | Raw jserror

datatype call_result = CallResolved json | CallRejected nat thrown

definition call_then :: "fetch_result \<Rightarrow> thrown + json" where
  "call_then f =
     (case f of
        NoResponse e \<Rightarrow> Inl (Raw e)
      | Response st b \<Rightarrow>
          (case b of
             Inl e \<Rightarrow> Inl (Raw e)
           | Inr d \<Rightarrow> if rsp_ok st then Inr d else Inl (StatusPair st d)))"

definition call_catch :: "thrown + json \<Rightarrow> call_result" where
  "call_catch r = (case r of Inl err \<Rightarrow> CallRejected 0 err | Inr d \<Rightarrow> CallResolved d)"

definition call :: "lib \<Rightarrow> (request \<Rightarrow> fetch_result) \<Rightarrow> sondra \<Rightarrow> transient \<Rightarrow> call_result" where
  "call l fetch this tc = call_catch (call_then (fetch (call_request l this tc)))"

section \<open>The resilient call\<close>

text \<open>
  The connectivity signal of the host at the time of one probe: \<open>Connection.NONE\<close> when
  \<open>window\<close> has a \<open>Connection\<close>, \<open>navigator.connection.type\<close> when that path exists,
  and what the \<open>HEAD\<close> request to the ping address does if it is made (\<open>None\<close>: it
  settles with a response, \<open>Some e\<close>: it fails with \<open>e\<close>).
\<close>

datatype connval = ConnBool bool | ConnName string

record probe =
  window_Connection_NONE :: "connval option"
  navigator_connection_type :: "connval option"
  ping_result :: "jserror option"

text \<open>
  What the promise of one \<open>robustCall\<close> invocation is settled with: \<open>resolve\<close> receives
  \<open>{deferredRequestId, data}\<close> or \<open>null\<close>, \<open>reject\<close> receives
  \<open>{deferredRequestId, url, status, error}\<close>. A promise on which neither is ever called
  stays \<open>Pending\<close>.
\<close>

record resolution =
  res_deferredRequestId :: nat
  res_data :: json

datatype errval = ErrData json | ErrRaw jserror

record rejection =
  rej_deferredRequestId :: nat
  rej_url :: urlval
  rej_status :: nat
  rej_error :: errval

datatype settlement = Pending | Resolved "resolution option" | Rejected rejection

text \<open>
  The effects of a resilient call, in the order in which they happen: the \<open>HEAD\<close> request
  of a probe, a call of \<open>temporaryErrorCallback(deferredRequestId, url, error)\<close>, a
  \<open>Promise.delay\<close>, a \<open>fetch(url, requestOptions)\<close> and a call of \<open>resolve\<close> or \<open>reject\<close>;
  the last two are tagged with the request id and the attempt index \<open>_n\<close> of the invocation
  that makes them.

  The world holds the module counter \<open>nextDeferredRequestId\<close>, what the environment will
  answer to the probes and to the fetches still to come, and the effects so far. When the
  environment has no further answer, the awaited step never completes.
\<close>

datatype event =
    Ping string
  | Observe nat urlval jserror
  | Delay nat
  | Fetch nat nat urlval "(string \<times> optval) list"
  | Settle nat nat settlement

record world =
  nextDeferredRequestId :: nat
  probes :: "probe list"
  fetches :: "fetch_result list"
  trace :: "event list"

definition emit :: "event list \<Rightarrow> world \<Rightarrow> world" where
  "emit es w = w\<lparr> trace := trace w @ es \<rparr>"

text \<open>\<open>_rqid || nextDeferredRequestId++\<close>: \<open>null\<close> and \<open>0\<close> are falsy.\<close>

definition assign_id :: "nat option \<Rightarrow> world \<Rightarrow> nat \<times> world" where
  "assign_id rqid w =
     (case rqid of
        Some k \<Rightarrow>
          if k \<noteq> 0 then (k, w)
          else (nextDeferredRequestId w, w\<lparr> nextDeferredRequestId := nextDeferredRequestId w + 1 \<rparr>)
      | None \<Rightarrow> (nextDeferredRequestId w, w\<lparr> nextDeferredRequestId := nextDeferredRequestId w + 1 \<rparr>))"

text \<open>
  \<open>_isOnline\<close>: the ping is sent unless \<open>navigator.connection.type\<close> exists and equals
  \<open>NoConnection\<close>, in which case the promise is rejected with \<open>"not online"\<close> and no request
  is made. The result is the request made, if any, and the failure, if any.
\<close>

definition isOnline :: "sondra \<Rightarrow> probe \<Rightarrow> event list \<times> jserror option" where
  "isOnline this pe =
     (let NoConnection = (case window_Connection_NONE pe of Some v \<Rightarrow> v | None \<Rightarrow> ConnBool False);
          ping = protocol this @ ''://'' @ host this @ '':'' @ port this @ pingPath (robust this)
      in case navigator_connection_type pe of
           None \<Rightarrow> ([Ping ping], ping_result pe)
         | Some t \<Rightarrow>
             if t \<noteq> NoConnection then ([Ping ping], ping_result pe)
             else ([], Some \<lparr> message = ''not online'', status = None \<rparr>))"

text \<open>
  The \<open>then\<close> handler of the fetch: a response whose body parses settles the promise, by
  \<open>resolve\<close> when \<open>rsp.ok\<close> and by \<open>reject\<close> otherwise. No response, or a body that does
  not parse, is an error that reaches the \<open>catch\<close> handler.
\<close>

definition attempt :: "nat \<Rightarrow> urlval \<Rightarrow> fetch_result \<Rightarrow> jserror + settlement" where
  "attempt deferredRequestId u f =
     (case f of
        NoResponse error \<Rightarrow> Inl error
      | Response st b \<Rightarrow>
          (case b of
             Inl error \<Rightarrow> Inl error
           | Inr d \<Rightarrow>
               if rsp_ok st
               then Inr (Resolved (Some \<lparr> res_deferredRequestId = deferredRequestId, res_data = d \<rparr>))
               else Inr (Rejected \<lparr> rej_deferredRequestId = deferredRequestId, rej_url = u,
                                    rej_status = st, rej_error = ErrData d \<rparr>)))"

definition is_resolved :: "settlement \<Rightarrow> bool" where
  "is_resolved s = (case s of Resolved _ \<Rightarrow> True | _ \<Rightarrow> False)"

text \<open>
  \<open>robustCall(transientContext, temporaryErrorCallback, actionOnFail, _n, _rqid)\<close>. The
  executor of the promise runs \<open>this._isOnline().catch(H).then(K)\<close>. \<open>H\<close> reports the probe
  failure, waits and calls \<open>robustCall\<close> again with the same \<open>_n\<close> and the request id; \<open>K\<close>
  runs when the probe succeeded or when the promise returned by \<open>H\<close> is fulfilled, and
  fetches. In the \<open>catch\<close> handler of the fetch, \<open>defer\<close> reports the failure, waits and
  calls \<open>robustCall\<close> with four arguments; the promise of that inner call is returned
  into the chain, and what the executor returns is dropped, so \<open>resolve\<close> and \<open>reject\<close> of
  the outer promise are not called on that path. The same holds for a rejection or an
  exception inside the handlers.
\<close>

function robustCall :: "lib \<Rightarrow> sondra \<Rightarrow> transient \<Rightarrow> string \<Rightarrow> nat \<Rightarrow> nat option \<Rightarrow> world
    \<Rightarrow> settlement \<times> world" where
  "robustCall l this tc actionOnFail n rqid w =
     (let m = merge_t this tc;
          (deferredRequestId, w1) = assign_id rqid w;
          requestOptions = req_options (robust_request l this tc)
      in case probes w1 of
           [] \<Rightarrow> (Pending, w1)
         | pe # ps \<Rightarrow>
             (let (online, w3) =
                    (case isOnline this pe of
                       (pings, None) \<Rightarrow> (True, emit pings (w1\<lparr> probes := ps \<rparr>))
                     | (pings, Some error) \<Rightarrow>
                         (let w2 = emit (pings @ [Observe deferredRequestId (url m) error,
                                                  Delay (refetchDelay (robust this))])
                                     (w1\<lparr> probes := ps \<rparr>);
                              (r, w3) = robustCall l this tc actionOnFail n (Some deferredRequestId) w2
                          in (is_resolved r, w3)))
              in if \<not> online then (Pending, w3)
                 else
                   (case fetches w3 of
                      [] \<Rightarrow> (Pending, w3)
                    | f # fs \<Rightarrow>
                        (let w4 = emit [Fetch deferredRequestId n (url m) requestOptions]
                                    (w3\<lparr> fetches := fs \<rparr>)
                         in case attempt deferredRequestId (url m) f of
                              Inr s \<Rightarrow> (s, emit [Settle deferredRequestId n s] w4)
                            | Inl error \<Rightarrow>
                                (let st = (case status error of None \<Rightarrow> 0 | Some k \<Rightarrow> k)
                                 in if st > 0 then (Pending, w4)
                                    else if actionOnFail = ''defer'' then
                                      (let w5 = emit [Observe deferredRequestId (url m) error,
                                                      Delay (refetchDelay (robust m))] w4;
                                           (r, w6) = robustCall l this tc
                                                       (if n < maxTries (robust m) then ''defer'' else ''fail'')
                                                       (n + 1) None w5
                                       in (Pending, w6))
                                    else if actionOnFail = ''fail'' then
                                      (let s = Rejected \<lparr> rej_deferredRequestId = deferredRequestId,
                                                          rej_url = url m, rej_status = st,
                                                          rej_error = ErrRaw error \<rparr>
                                       in (s, emit [Settle deferredRequestId n s] w4))
                                    else if actionOnFail = ''ignore'' then
                                      (Resolved None, emit [Settle deferredRequestId n (Resolved None)] w4)
                                    else (Pending, w4))))))"
  by pat_completeness auto

text \<open>
  Each recursive call is made after one answer to a probe has been consumed, and no call
  gives answers back, so the number of probe answers left decreases.
\<close>

lemma emit_simps [simp]:
  "probes (emit es w) = probes w"
  "fetches (emit es w) = fetches w"
  "nextDeferredRequestId (emit es w) = nextDeferredRequestId w"
  "trace (emit es w) = trace w @ es"
  by (simp_all add: emit_def)

lemma assign_id_simps [simp]:
  "probes (snd (assign_id rqid w)) = probes w"
  "fetches (snd (assign_id rqid w)) = fetches w"
  "trace (snd (assign_id rqid w)) = trace w"
  by (simp_all add: assign_id_def split: option.split)

lemma robustCall_probes_le:
  assumes "robustCall_dom (l, this, tc, act, n, rqid, w)"
  shows "length (probes (snd (robustCall l this tc act n rqid w))) \<le> length (probes w)"
  using assms
proof (induct rule: robustCall.pinduct)
  case (1 l this tc act n rqid w)
  note dom = "1.hyps"(1) and IH1 = "1.hyps"(2) and IH2 = "1.hyps"(3)
  obtain i w1 where a: "assign_id rqid w = (i, w1)" by (cases "assign_id rqid w")
  have p1: "probes w1 = probes w" using assign_id_simps(1)[of rqid w] a by simp
  show ?case
  proof (cases "probes w1")
    case Nil
    then show ?thesis using dom a p1 by (simp add: robustCall.psimps)
  next
    case (Cons pe ps)
    obtain pings fl where o: "isOnline this pe = (pings, fl)" by (cases "isOnline this pe")
    have lw: "length (probes w) = Suc (length ps)" using p1 Cons by (metis length_Cons)
    define probed where "probed =
       (case isOnline this pe of
          (pings, None) \<Rightarrow> (True, emit pings (w1\<lparr> probes := ps \<rparr>))
        | (pings, Some error) \<Rightarrow>
            (let w2 = emit (pings @ [Observe i (url (merge_t this tc)) error,
                                     Delay (refetchDelay (robust this))])
                        (w1\<lparr> probes := ps \<rparr>);
                 (r, w3) = robustCall l this tc act n (Some i) w2
             in (is_resolved r, w3)))"
    obtain online w3 where pr: "probed = (online, w3)" by (cases probed)
    have le3: "length (probes w3) \<le> length ps"
    proof (cases fl)
      case None
      then show ?thesis using pr o by (auto simp add: probed_def)
    next
      case (Some e)
      define w2 where "w2 = emit (pings @ [Observe i (url (merge_t this tc)) e,
                                     Delay (refetchDelay (robust this))])
                        (w1\<lparr> probes := ps \<rparr>)"
      have "length (probes (snd (robustCall l this tc act n (Some i) w2))) \<le> length (probes w2)"
        by (rule IH1[OF refl refl a[symmetric] refl Cons o[symmetric] Some w2_def])
      moreover have "w3 = snd (robustCall l this tc act n (Some i) w2)"
        using pr o Some by (simp add: probed_def w2_def Let_def split: prod.splits)
      ultimately show ?thesis by (simp add: w2_def)
    qed
    have unfold: "robustCall l this tc act n rqid w =
       (if \<not> online then (Pending, w3)
        else
          (case fetches w3 of
             [] \<Rightarrow> (Pending, w3)
           | f # fs \<Rightarrow>
               (let w4 = emit [Fetch i n (url (merge_t this tc)) (req_options (robust_request l this tc))]
                           (w3\<lparr> fetches := fs \<rparr>)
                in case attempt i (url (merge_t this tc)) f of
                     Inr s \<Rightarrow> (s, emit [Settle i n s] w4)
                   | Inl error \<Rightarrow>
                       (let st = (case status error of None \<Rightarrow> 0 | Some k \<Rightarrow> k)
                        in if st > 0 then (Pending, w4)
                           else if act = ''defer'' then
                             (let w5 = emit [Observe i (url (merge_t this tc)) error,
                                             Delay (refetchDelay (robust (merge_t this tc)))] w4;
                                  (r, w6) = robustCall l this tc
                                              (if n < maxTries (robust (merge_t this tc)) then ''defer'' else ''fail'')
                                              (n + 1) None w5
                              in (Pending, w6))
                           else if act = ''fail'' then
                             (let s = Rejected \<lparr> rej_deferredRequestId = i,
                                                 rej_url = url (merge_t this tc), rej_status = st,
                                                 rej_error = ErrRaw error \<rparr>
                              in (s, emit [Settle i n s] w4))
                           else if act = ''ignore'' then
                             (Resolved None, emit [Settle i n (Resolved None)] w4)
                           else (Pending, w4)))))"
      using pr[unfolded probed_def] by (simp add: robustCall.psimps[OF dom] a Cons Let_def)
    show ?thesis
    proof (cases "online")
      case False
      then show ?thesis using unfold le3 lw by simp
    next
      case True
      note on = True
      show ?thesis
      proof (cases "fetches w3")
        case Nil
        then show ?thesis using unfold le3 lw on by simp
      next
        case (Cons f fs)
        note fc = Cons
        define w4 where "w4 = emit [Fetch i n (url (merge_t this tc)) (req_options (robust_request l this tc))]
                           (w3\<lparr> fetches := fs \<rparr>)"
        have p4: "probes w4 = probes w3" by (simp add: w4_def)
        show ?thesis
        proof (cases "attempt i (url (merge_t this tc)) f")
          case (Inr s)
          then show ?thesis using unfold le3 lw on fc by simp
        next
          case (Inl error)
          define st where "st = (case status error of None \<Rightarrow> (0::nat) | Some k \<Rightarrow> k)"
          show ?thesis
          proof (cases "\<not> 0 < st \<and> act = ''defer''")
            case False
            then show ?thesis using unfold le3 lw on fc Inl
              by (auto simp add: st_def Let_def)
          next
            case True
            define w5 where "w5 = emit [Observe i (url (merge_t this tc)) error,
                                             Delay (refetchDelay (robust (merge_t this tc)))] w4"
            define act' where "act' = (if n < maxTries (robust (merge_t this tc)) then ''defer'' else ''fail'')"
            obtain r w6 where rc: "robustCall l this tc act' (n + 1) None w5 = (r, w6)"
              by (cases "robustCall l this tc act' (n + 1) None w5")
            have "length (probes (snd (robustCall l this tc act' (n + 1) None w5))) \<le> length (probes w5)"
              unfolding act'_def
              apply (rule IH2[OF refl refl a[symmetric] refl \<open>probes w1 = pe # ps\<close> refl
                    pr[unfolded probed_def, symmetric] _ fc w4_def Inl st_def _ _ w5_def])
              using on True by simp_all
            then have "length (probes w6) \<le> length (probes w3)"
              using rc by (simp add: w5_def w4_def)
            moreover have "robustCall l this tc act n rqid w = (Pending, w6)"
              using on fc Inl True rc[unfolded act'_def w5_def w4_def]
              by (subst unfold) (simp add: st_def Let_def split del: if_split)
            ultimately show ?thesis using le3 lw by simp
          qed
        qed
      qed
    qed
  qed
qed

termination robustCall
proof (relation "measure (\<lambda>(l, this, tc, act, n, rqid, w). length (probes w))", goal_cases)
  case 1
  show ?case by simp
next
  case (2 l this tc act n rqid w x xa xb y xaa x21 x22 xab ya x2 xac)
  have "probes y = probes w"
    using assign_id_simps(1)[of rqid w] 2(2,3) by (metis snd_conv)
  then have "length (probes w) = Suc (length x22)" using 2(5) by (metis length_Cons)
  then show ?case
    using 2(8) by simp
next
  case (3 l this tc act n rqid w x xa xb y xaa x21 x22 xab xac ya x21a x22a xad a xae xaf)
  have py: "probes y = probes w"
    using assign_id_simps(1)[of rqid w] 3(2,3) by (metis snd_conv)
  have "length (probes ya) \<le> length x22"
  proof (cases "isOnline this x21")
    case (Pair pings fl)
    show ?thesis
    proof (cases fl)
      case None
      then show ?thesis using 3(6,7) Pair by auto
    next
      case (Some e)
      have "length (probes (snd (robustCall l this tc act n (Some xb) 
               (emit (pings @ [Observe xb (url x) e, Delay (refetchDelay (robust this))]) (y\<lparr>probes := x22\<rparr>)))))
             \<le> length x22"
        using robustCall_probes_le[OF 3(16)[OF Pair[symmetric] Some refl]]
        by simp
      then show ?thesis using 3(6,7) Pair Some by (auto simp add: Let_def split: prod.splits)
    qed
  qed
  moreover have "length (probes w) = Suc (length x22)" using py 3(5) by (metis length_Cons)
  ultimately show ?case
    using 3(10,15) by simp
qed

declare robustCall.simps [simp del]

subsection \<open>The continuation and the error handler\<close>

text \<open>
  Two parts of the body of \<open>robustCall\<close>, named: \<open>sending\<close> is the continuation \<open>K\<close> that
  fetches, and \<open>on_error\<close> is the \<open>catch\<close> handler of the fetch. \<open>robustCall_unfold\<close> states
  the body of \<open>robustCall\<close> with them.
\<close>

definition on_error :: "lib \<Rightarrow> sondra \<Rightarrow> transient \<Rightarrow> string \<Rightarrow> nat \<Rightarrow> nat \<Rightarrow> jserror \<Rightarrow> world
    \<Rightarrow> settlement \<times> world" where
  "on_error l this tc actionOnFail n deferredRequestId error w4 =
     (let m = merge_t this tc;
          st = (case status error of None \<Rightarrow> 0 | Some k \<Rightarrow> k)
      in if st > 0 then (Pending, w4)
         else if actionOnFail = ''defer'' then
           (let w5 = emit [Observe deferredRequestId (url m) error,
                           Delay (refetchDelay (robust m))] w4;
                (r, w6) = robustCall l this tc
                            (if n < maxTries (robust m) then ''defer'' else ''fail'')
                            (n + 1) None w5
            in (Pending, w6))
         else if actionOnFail = ''fail'' then
           (let s = Rejected \<lparr> rej_deferredRequestId = deferredRequestId,
                               rej_url = url m, rej_status = st,
                               rej_error = ErrRaw error \<rparr>
            in (s, emit [Settle deferredRequestId n s] w4))
         else if actionOnFail = ''ignore'' then
           (Resolved None, emit [Settle deferredRequestId n (Resolved None)] w4)
         else (Pending, w4))"

definition sending :: "lib \<Rightarrow> sondra \<Rightarrow> transient \<Rightarrow> string \<Rightarrow> nat \<Rightarrow> nat \<Rightarrow> world
    \<Rightarrow> settlement \<times> world" where
  "sending l this tc actionOnFail n deferredRequestId w3 =
     (case fetches w3 of
        [] \<Rightarrow> (Pending, w3)
      | f # fs \<Rightarrow>
          (let m = merge_t this tc;
               w4 = emit [Fetch deferredRequestId n (url m) (req_options (robust_request l this tc))]
                      (w3\<lparr> fetches := fs \<rparr>)
           in case attempt deferredRequestId (url m) f of
                Inr s \<Rightarrow> (s, emit [Settle deferredRequestId n s] w4)
              | Inl error \<Rightarrow> on_error l this tc actionOnFail n deferredRequestId error w4))"

subsection \<open>Traces and scenarios\<close>

text \<open>
  A host with no connectivity signal, whose ping is answered; a host whose
  \<open>navigator.connection.type\<close> is \<open>false\<close>, as the test of the repository sets it; a
  failure of \<open>fetch\<close> with no response; the suite \<open>pronto\<close> and the \<open>login\<close> method of its
  \<open>auth\<close> app as the tests build them. The scenarios send no body fields, so the request
  carries no serialised text: \<open>plain_lib\<close> stands for the library functions there. \<open>world0\<close> is
  the start of the module, with the counter at 1 and nothing done yet.
\<close>

definition pronto :: sondra where
  "pronto = suite_m ''http'' ''localhost'' ''5000'' DefaultBasePath DefaultContext"

definition online :: probe where
  "online = \<lparr> window_Connection_NONE = None, navigator_connection_type = None, ping_result = None \<rparr>"

definition offline :: probe where
  "offline = \<lparr> window_Connection_NONE = None, navigator_connection_type = Some (ConnBool False),
               ping_result = None \<rparr>"

definition network_error :: jserror where
  "network_error = \<lparr> message = ''TypeError: Failed to fetch'', status = None \<rparr>"

definition login :: sondra where
  "login = method_m (JsStr ''login'') (app_m (JsStr ''auth'') pronto)"

definition plain_lib :: lib where
  "plain_lib = \<lparr> JSON_stringify = (\<lambda>j. ''null''), URLSearchParams_toString = (\<lambda>kv. []),
                 size_of_map = length \<rparr>"

definition world0 :: "probe list \<Rightarrow> fetch_result list \<Rightarrow> world" where
  "world0 ps fs = \<lparr> nextDeferredRequestId = 1, probes = ps, fetches = fs, trace = [] \<rparr>"

text \<open>
  The request ids and attempt indices of the fetches, the calls of the observer and the
  calls of \<open>resolve\<close> and \<open>reject\<close> in a trace.
\<close>

definition fetch_ids :: "event list \<Rightarrow> (nat \<times> nat) list" where
  "fetch_ids tr = concat (map (\<lambda>ev. case ev of Fetch i n u opts \<Rightarrow> [(i, n)] | _ \<Rightarrow> []) tr)"

definition observed :: "event list \<Rightarrow> (nat \<times> urlval \<times> jserror) list" where
  "observed tr = concat (map (\<lambda>ev. case ev of Observe i u e \<Rightarrow> [(i, u, e)] | _ \<Rightarrow> []) tr)"

definition settled :: "event list \<Rightarrow> (nat \<times> nat \<times> settlement) list" where
  "settled tr = concat (map (\<lambda>ev. case ev of Settle i n s \<Rightarrow> [(i, n, s)] | _ \<Rightarrow> []) tr)"

definition token :: json where
  "token = JObj [(''_'', JStr ''token'')]"

definition forbidden :: json where
  "forbidden = JObj [(''error'', JStr ''forbidden'')]"

definition login_url :: urlval where
  "login_url = UrlStr ''http://localhost:5000/api/auth.login;format=json''"

definition with_maxTries :: "nat \<Rightarrow> sondra \<Rightarrow> sondra" where
  "with_maxTries k c = c\<lparr> robust := (robust c)\<lparr> maxTries := k \<rparr> \<rparr>"

text \<open>
  Answers of the environment under which every probe succeeds, and under which every
  fetch fails without a response and without a status.
\<close>

definition probes_succeed :: "sondra \<Rightarrow> probe list \<Rightarrow> bool" where
  "probes_succeed this ps = list_all (\<lambda>pe. snd (isOnline this pe) = None) ps"

definition no_response :: "fetch_result list \<Rightarrow> bool" where
  "no_response fs = list_all (\<lambda>f. case f of NoResponse e \<Rightarrow> status e = None | _ \<Rightarrow> False) fs"

section \<open>Properties of the request context\<close>

lemma sel_simps:
  "app (calculateUrl c) = app c"
  "collection (calculateUrl c) = collection c"
  "document (calculateUrl c) = document c"
  "method (calculateUrl c) = method c"
  "body (calculateUrl c) = body c"
  "requestMethod (calculateUrl c) = requestMethod c"
  "protocol (calculateUrl c) = protocol c"
  "host (calculateUrl c) = host c"
  "port (calculateUrl c) = port c"
  "basePath (calculateUrl c) = basePath c"
  "params (calculateUrl c) = params c"
  by (simp_all add: calculateUrl_def Let_def)

lemma segment_truthy: "segment sep v = (if truthy v then sep @ js_text v else [])"
  by (cases v) (auto simp add: segment_def)

lemma url_calculateUrl: "url (calculateUrl c) = UrlStr (url_layout c)"
  by (simp add: calculateUrl_def url_layout_def segment_truthy Let_def responseFormat_def
      case_prod_unfold)

lemma layout_calculateUrl: "url_layout (calculateUrl c) = url_layout c"
  by (simp add: url_layout_def calculateUrl_def Let_def)

lemma calculateUrl_forgets_url: "calculateUrl (c\<lparr> url := u \<rparr>) = calculateUrl c"
  by (simp add: calculateUrl_def Let_def)

lemma nav_step_url: "url (nav_step x c) = UrlStr (url_layout (nav_step x c))"
  by (cases x)
     (simp_all add: app_m_def collection_m_def document_m_def method_m_def format_def
        url_calculateUrl layout_calculateUrl)

lemma nav_step_forgets_url: "nav_step x (c\<lparr> url := u \<rparr>) = nav_step x c"
  by (cases x)
     (simp_all add: app_m_def collection_m_def document_m_def method_m_def format_def
        calculateUrl_def Let_def)

text \<open>
  The URLs that the tests of the repository expect, computed by the model.
\<close>

lemma test_urls:
  "url (app_m (JsStr ''auth'') pronto) = UrlStr ''http://localhost:5000/api/auth;format=json''"
  "url (format ''json'' [(''indent'', ''2'')] (app_m (JsStr ''auth'') pronto))
     = UrlStr ''http://localhost:5000/api/auth;format=json;indent=2''"
  "url (collection_m (JsStr ''users'') (app_m (JsStr ''auth'') pronto))
     = UrlStr ''http://localhost:5000/api/auth/users;format=json''"
  "url (method_m (JsStr ''login'') (app_m (JsStr ''auth'') pronto))
     = UrlStr ''http://localhost:5000/api/auth.login;format=json''"
  "url (document_m (JsStr ''jefferson'') (collection_m (JsStr ''users'') (app_m (JsStr ''auth'') pronto)))
     = UrlStr ''http://localhost:5000/api/auth/users/jefferson;format=json''"
  by code_simp+

text \<open>
  C8. Selecting an app clears collection, document and method and empties the body;
  selecting a collection clears document and method and empties the body; selecting a
  document clears method and empties the body; selecting a method empties the body and
  sets the request verb to \<open>POST\<close>. Each selection returns a context whose \<open>url\<close> is
  recomputed: it is the string laid out from the new fields, and it does not depend on the
  \<open>url\<close> that the context had before. On the suite of the tests, whose \<open>url\<close> field holds
  no string, the selections give the URLs that the tests expect. The selections are
  functions from contexts to contexts, so the context they are applied to is not changed.
\<close>

theorem selection_clears_finer_selectors:
  "app (app_m name c) = name \<and> collection (app_m name c) = JsNull
     \<and> document (app_m name c) = JsNull \<and> method (app_m name c) = JsNull
     \<and> body (app_m name c) = []
     \<and> url (app_m name c) = UrlStr (url_layout (app_m name c))
     \<and> app_m name (c\<lparr> url := u \<rparr>) = app_m name c
   \<and> collection (collection_m name c) = name \<and> document (collection_m name c) = JsNull
     \<and> method (collection_m name c) = JsNull \<and> body (collection_m name c) = []
     \<and> app (collection_m name c) = app c
     \<and> url (collection_m name c) = UrlStr (url_layout (collection_m name c))
     \<and> collection_m name (c\<lparr> url := u \<rparr>) = collection_m name c
   \<and> document (document_m name c) = name \<and> method (document_m name c) = JsNull
     \<and> body (document_m name c) = []
     \<and> app (document_m name c) = app c \<and> collection (document_m name c) = collection c
     \<and> url (document_m name c) = UrlStr (url_layout (document_m name c))
     \<and> document_m name (c\<lparr> url := u \<rparr>) = document_m name c
   \<and> method (method_m name c) = name \<and> body (method_m name c) = []
     \<and> requestMethod (method_m name c) = ''POST''
     \<and> app (method_m name c) = app c \<and> collection (method_m name c) = collection c
     \<and> document (method_m name c) = document c
     \<and> url (method_m name c) = UrlStr (url_layout (method_m name c))
     \<and> method_m name (c\<lparr> url := u \<rparr>) = method_m name c
   \<and> url (app_m (JsStr ''auth'') pronto) = UrlStr ''http://localhost:5000/api/auth;format=json''
   \<and> url (collection_m (JsStr ''users'') (app_m (JsStr ''auth'') pronto))
       = UrlStr ''http://localhost:5000/api/auth/users;format=json''
   \<and> url (document_m (JsStr ''jefferson'') (collection_m (JsStr ''users'') (app_m (JsStr ''auth'') pronto)))
       = UrlStr ''http://localhost:5000/api/auth/users/jefferson;format=json''
   \<and> url (method_m (JsStr ''login'') (app_m (JsStr ''auth'') pronto))
       = UrlStr ''http://localhost:5000/api/auth.login;format=json''
   \<and> url (app_m (JsStr ''core'') (document_m (JsStr ''jefferson'')
              (collection_m (JsStr ''users'') (app_m (JsStr ''auth'') pronto))))
       = UrlStr ''http://localhost:5000/api/core;format=json''"
proof -
  have fields:
    "app (app_m name c) = name \<and> collection (app_m name c) = JsNull
     \<and> document (app_m name c) = JsNull \<and> method (app_m name c) = JsNull
     \<and> body (app_m name c) = []
     \<and> collection (collection_m name c) = name \<and> document (collection_m name c) = JsNull
     \<and> method (collection_m name c) = JsNull \<and> body (collection_m name c) = []
     \<and> app (collection_m name c) = app c
     \<and> document (document_m name c) = name \<and> method (document_m name c) = JsNull
     \<and> body (document_m name c) = []
     \<and> app (document_m name c) = app c \<and> collection (document_m name c) = collection c
     \<and> method (method_m name c) = name \<and> body (method_m name c) = []
     \<and> requestMethod (method_m name c) = ''POST''
     \<and> app (method_m name c) = app c \<and> collection (method_m name c) = collection c
     \<and> document (method_m name c) = document c"
    by (simp add: app_m_def collection_m_def document_m_def method_m_def sel_simps)
  have urls:
    "url (app_m name c) = UrlStr (url_layout (app_m name c))"
    "url (collection_m name c) = UrlStr (url_layout (collection_m name c))"
    "url (document_m name c) = UrlStr (url_layout (document_m name c))"
    "url (method_m name c) = UrlStr (url_layout (method_m name c))"
    using nav_step_url[of "App name" c] nav_step_url[of "Collection name" c]
      nav_step_url[of "Document name" c] nav_step_url[of "Method name" c]
    by simp_all
  have fresh:
    "app_m name (c\<lparr> url := u \<rparr>) = app_m name c"
    "collection_m name (c\<lparr> url := u \<rparr>) = collection_m name c"
    "document_m name (c\<lparr> url := u \<rparr>) = document_m name c"
    "method_m name (c\<lparr> url := u \<rparr>) = method_m name c"
    using nav_step_forgets_url[where x="App name" and c=c and u=u]
      nav_step_forgets_url[where x="Collection name" and c=c and u=u]
      nav_step_forgets_url[where x="Document name" and c=c and u=u]
      nav_step_forgets_url[where x="Method name" and c=c and u=u]
    by simp_all
  have t5: "url (app_m (JsStr ''core'') (document_m (JsStr ''jefferson'')
              (collection_m (JsStr ''users'') (app_m (JsStr ''auth'') pronto))))
       = UrlStr ''http://localhost:5000/api/core;format=json''"
    by code_simp
  show ?thesis
    using fields urls fresh test_urls(1,3,4,5) t5 by simp
qed



text \<open>
  C6. The claim is that every operation that changes a field the URL depends on, \<open>suite\<close>
  included, leaves in \<open>url\<close> the string computed from the new fields. \<open>suite\<close> does not:
  called with the base path \<open>v2\<close> on the default context it keeps the base path \<open>api\<close>, and
  its \<open>url\<close> field holds a context record, not the string that \<open>calculateUrl\<close> computes for
  the new target.
\<close>

theorem suite_leaves_record_in_url:
  "url (suite_m ''http'' ''localhost'' ''5000'' [''v2''] DefaultContext)
     = UrlRec ''http://localhost:5000/api;format=json''
   \<and> basePath (suite_m ''http'' ''localhost'' ''5000'' [''v2''] DefaultContext) = [''api'']
   \<and> url (calculateUrl (DefaultContext\<lparr> protocol := ''http'', host := ''localhost'',
            port := ''5000'', basePath := [''v2''] \<rparr>)) = UrlStr ''http://localhost:5000/v2;format=json''"
  by code_simp

lemma suite_url_not_string: "url (suite_m p h po bp c) \<noteq> UrlStr u"
  by (simp add: suite_m_def Let_def split: urlval.split)

section \<open>Properties of request building and of the single attempt\<close>

lemma merge_t_querySet:
  "merge_t (c\<lparr> querySet := qs \<rparr>) (tc\<lparr> t_querySet := tq \<rparr>)
     = (merge_t c tc)\<lparr> querySet := override tq qs \<rparr>"
  by (simp add: merge_t_def)

lemma js_object_names:
  "list_all (\<lambda>kv. \<not> is_array_index (fst kv)) kvs \<Longrightarrow> js_object kvs = kvs"
proof -
  assume a: "list_all (\<lambda>kv. \<not> is_array_index (fst kv)) kvs"
  then have "filter (\<lambda>kv. is_array_index (fst kv)) kvs = []"
    by (induction kvs) auto
  moreover from a have "filter (\<lambda>kv. \<not> is_array_index (fst kv)) kvs = kvs"
    by (induction kvs) auto
  ultimately show ?thesis by (simp add: js_object_def)
qed

lemma names_not_indices:
  "\<not> is_array_index ''username''" "\<not> is_array_index ''limit''"
  by (simp_all add: is_array_index_def is_digit_def)

text \<open>
  C10. The request that \<open>robustCall\<close> builds does not depend on the QuerySet, whether it is
  attached to the context or given in the transient context: contexts that differ only
  in their QuerySet give the same request. \<open>call\<close> is different. With the body field
  \<open>username\<close> and a QuerySet with a limit, the query string of a \<open>GET\<close> and the JSON payload
  of a \<open>POST\<close> hold the limit in \<open>call\<close>, and only the body field in \<open>robustCall\<close>.
\<close>

theorem robust_request_ignores_querySet:
  "robust_request l (c\<lparr> querySet := qs \<rparr>) (tc\<lparr> t_querySet := tq \<rparr>) = robust_request l c tc
   \<and> req_query (call_request l
         (query (limit_q (JNum 5) new_QuerySet) (collection_m (JsStr ''users'') DefaultContext))
         (no_transient\<lparr> t_body := Some [(''username'', JStr ''jefferson'')] \<rparr>))
       = Some (URLSearchParams_toString l [(''username'', JStr ''jefferson''), (''limit'', JNum 5)])
   \<and> req_query (robust_request l
         (query (limit_q (JNum 5) new_QuerySet) (collection_m (JsStr ''users'') DefaultContext))
         (no_transient\<lparr> t_body := Some [(''username'', JStr ''jefferson'')] \<rparr>))
       = Some (URLSearchParams_toString l [(''username'', JStr ''jefferson'')])
   \<and> map_of (req_options (call_request l
         (query (limit_q (JNum 5) new_QuerySet) (method_m (JsStr ''login'') DefaultContext))
         (no_transient\<lparr> t_body := Some [(''username'', JStr ''jefferson'')] \<rparr>))) ''body''
       = Some (OptBody (Some (JSON_stringify l
                 (JObj [(''username'', JStr ''jefferson''), (''limit'', JNum 5)]))))
   \<and> map_of (req_options (robust_request l
         (query (limit_q (JNum 5) new_QuerySet) (method_m (JsStr ''login'') DefaultContext))
         (no_transient\<lparr> t_body := Some [(''username'', JStr ''jefferson'')] \<rparr>))) ''body''
       = Some (OptBody (if size_of_map l [(''username'', JStr ''jefferson'')] = 0 then None
                        else Some (JSON_stringify l (JObj [(''username'', JStr ''jefferson'')]))))"
proof -
  have o1: "js_object [(''username'', JStr ''jefferson'')] = [(''username'', JStr ''jefferson'')]"
    by (rule js_object_names) (simp add: names_not_indices)
  have o2: "js_object [(''limit'', JNum 5)] = [(''limit'', JNum 5)]"
    by (rule js_object_names) (simp add: names_not_indices)
  have o3: "js_object [(''username'', JStr ''jefferson''), (''limit'', JNum 5)]
              = [(''username'', JStr ''jefferson''), (''limit'', JNum 5)]"
    by (rule js_object_names) (simp add: names_not_indices)
  have general:
    "robust_request l (c\<lparr> querySet := qs \<rparr>) (tc\<lparr> t_querySet := tq \<rparr>) = robust_request l c tc"
    by (simp add: robust_request_def merge_t_querySet Let_def)
  have call_get: "req_query (call_request l
         (query (limit_q (JNum 5) new_QuerySet) (collection_m (JsStr ''users'') DefaultContext))
         (no_transient\<lparr> t_body := Some [(''username'', JStr ''jefferson'')] \<rparr>))
       = Some (URLSearchParams_toString l [(''username'', JStr ''jefferson''), (''limit'', JNum 5)])"
    by (simp add: call_request_def merge_t_def no_transient_def override_def query_def
        collection_m_def calculateUrl_def DefaultContext_def Let_def value_q_def
        limit_q_def new_QuerySet_def initialQuery_def o1 o2 o3)
  have robust_get: "req_query (robust_request l
         (query (limit_q (JNum 5) new_QuerySet) (collection_m (JsStr ''users'') DefaultContext))
         (no_transient\<lparr> t_body := Some [(''username'', JStr ''jefferson'')] \<rparr>))
       = Some (URLSearchParams_toString l [(''username'', JStr ''jefferson'')])"
    by (simp add: robust_request_def merge_t_def no_transient_def override_def query_def
        collection_m_def calculateUrl_def DefaultContext_def Let_def o1)
  have call_post: "map_of (req_options (call_request l
         (query (limit_q (JNum 5) new_QuerySet) (method_m (JsStr ''login'') DefaultContext))
         (no_transient\<lparr> t_body := Some [(''username'', JStr ''jefferson'')] \<rparr>))) ''body''
       = Some (OptBody (Some (JSON_stringify l
                 (JObj [(''username'', JStr ''jefferson''), (''limit'', JNum 5)]))))"
    by (simp add: call_request_def merge_t_def no_transient_def override_def query_def
        method_m_def calculateUrl_def DefaultContext_def Let_def value_q_def cook_props_def
        limit_q_def new_QuerySet_def initialQuery_def o1 o3)
  have robust_post: "map_of (req_options (robust_request l
         (query (limit_q (JNum 5) new_QuerySet) (method_m (JsStr ''login'') DefaultContext))
         (no_transient\<lparr> t_body := Some [(''username'', JStr ''jefferson'')] \<rparr>))) ''body''
       = Some (OptBody (if size_of_map l [(''username'', JStr ''jefferson'')] = 0 then None
                        else Some (JSON_stringify l (JObj [(''username'', JStr ''jefferson'')]))))"
    by (simp add: robust_request_def merge_t_def no_transient_def override_def query_def
        method_m_def calculateUrl_def DefaultContext_def Let_def o1)
  show ?thesis
    by (intro conjI general call_get robust_get call_post robust_post)
qed

lemma call_outcomes:
  "fetch (call_request l c tc) = Response st (Inr d) \<Longrightarrow> rsp_ok st
     \<Longrightarrow> call l fetch c tc = CallResolved d"
  "fetch (call_request l c tc) = Response st (Inr d) \<Longrightarrow> \<not> rsp_ok st
     \<Longrightarrow> call l fetch c tc = CallRejected 0 (StatusPair st d)"
  "fetch (call_request l c tc) = NoResponse e \<Longrightarrow> call l fetch c tc = CallRejected 0 (Raw e)"
  by (simp_all add: call_def call_then_def call_catch_def)

text \<open>
  C5. The claim is that \<open>call\<close> rejects with the pair (status, parsed error body) when a
  response carries a failure status. The \<open>catch\<close> handler of \<open>call\<close> follows the \<open>then\<close>
  handler in the chain, so it also receives the rejection \<open>[rsp.status, err]\<close> made there:
  for a 403 response the promise is rejected with \<open>[0, [403, body]]\<close>.
\<close>

theorem call_wraps_application_error:
  "call l (\<lambda>rq. Response 403 (Inr (JObj [(''error'', JStr ''forbidden'')]))) c tc
     = CallRejected 0 (StatusPair 403 (JObj [(''error'', JStr ''forbidden'')]))"
  by (simp add: call_def call_then_def call_catch_def rsp_ok_def)

section \<open>Properties of the resilient call\<close>

lemma robustCall_unfold:
  "robustCall l this tc act n rqid w =
     (let (i, w1) = assign_id rqid w
      in case probes w1 of
           [] \<Rightarrow> (Pending, w1)
         | pe # ps \<Rightarrow>
             (case isOnline this pe of
                (pings, None) \<Rightarrow> sending l this tc act n i (emit pings (w1\<lparr> probes := ps \<rparr>))
              | (pings, Some e) \<Rightarrow>
                  (let (r, w3) = robustCall l this tc act n (Some i)
                                   (emit (pings @ [Observe i (url (merge_t this tc)) e,
                                                   Delay (refetchDelay (robust this))])
                                      (w1\<lparr> probes := ps \<rparr>))
                   in if is_resolved r then sending l this tc act n i w3 else (Pending, w3))))"
proof -
  obtain i w1 where a: "assign_id rqid w = (i, w1)" by (cases "assign_id rqid w")
  show ?thesis
  proof (cases "probes w1")
    case Nil
    then show ?thesis using a by (subst robustCall.simps) simp
  next
    case (Cons pe ps)
    obtain pings fl where o: "isOnline this pe = (pings, fl)" by (cases "isOnline this pe")
    show ?thesis
    proof (cases fl)
      case None
      then show ?thesis using a Cons o
        by (subst robustCall.simps)
           (simp add: sending_def on_error_def Let_def split del: if_split cong: list.case_cong sum.case_cong if_cong)
    next
      case (Some e)
      obtain r w3 where rc: "robustCall l this tc act n (Some i)
                                   (emit (pings @ [Observe i (url (merge_t this tc)) e,
                                                   Delay (refetchDelay (robust this))])
                                      (w1\<lparr> probes := ps \<rparr>)) = (r, w3)"
        by (cases "robustCall l this tc act n (Some i)
                                   (emit (pings @ [Observe i (url (merge_t this tc)) e,
                                                   Delay (refetchDelay (robust this))])
                                      (w1\<lparr> probes := ps \<rparr>))")
      show ?thesis using a Cons o Some rc
        by (subst robustCall.simps, cases "is_resolved r")
           (simp_all add: sending_def on_error_def Let_def split del: if_split
              cong: list.case_cong sum.case_cong if_cong)
    qed
  qed
qed

lemma robustCall_probe_ok:
  assumes "probes w = pe # ps" and "isOnline this pe = (pings, None)"
  shows "robustCall l this tc act n rqid w =
           sending l this tc act n (fst (assign_id rqid w))
             (emit pings ((snd (assign_id rqid w))\<lparr> probes := ps \<rparr>))"
  using assms by (subst robustCall_unfold) (simp add: case_prod_unfold Let_def)

lemma robustCall_probe_failed:
  assumes "probes w = pe # ps" and "isOnline this pe = (pings, Some e)"
  shows "robustCall l this tc act n rqid w =
           (let i = fst (assign_id rqid w);
                (r, w3) = robustCall l this tc act n (Some i)
                            (emit (pings @ [Observe i (url (merge_t this tc)) e,
                                            Delay (refetchDelay (robust this))])
                               ((snd (assign_id rqid w))\<lparr> probes := ps \<rparr>))
            in if is_resolved r then sending l this tc act n i w3 else (Pending, w3))"
  using assms by (subst robustCall_unfold) (simp add: case_prod_unfold Let_def)

subsection \<open>The transitions of one invocation\<close>

lemma emit_emit: "emit b (emit a w) = emit (a @ b) w"
  by (simp add: emit_def)

lemma isOnline_only_pings:
  "isOnline this pe = (pings, fl) \<Longrightarrow> observed pings = [] \<and> fetch_ids pings = [] \<and> settled pings = []"
  by (auto simp add: isOnline_def Let_def observed_def fetch_ids_def settled_def
      split: option.splits if_splits)

lemma isOnline_no_connection:
  "navigator_connection_type pe = Some t \<Longrightarrow> window_Connection_NONE pe = Some t
     \<Longrightarrow> isOnline this pe = ([], Some \<lparr> message = ''not online'', status = None \<rparr>)"
  by (simp add: isOnline_def)

lemma sending_application_error:
  assumes "fetches w3 = Response st (Inr d) # fs" and "\<not> rsp_ok st"
  shows "sending l this tc act n i w3 =
           (let u = url (merge_t this tc);
                s = Rejected \<lparr> rej_deferredRequestId = i, rej_url = u, rej_status = st,
                               rej_error = ErrData d \<rparr>
            in (s, emit [Fetch i n u (req_options (robust_request l this tc)), Settle i n s]
                     (w3\<lparr> fetches := fs \<rparr>)))"
  using assms by (simp add: sending_def attempt_def Let_def emit_def)

lemma application_error_after_reprobe:
  assumes "probes w = pe # ps" and "isOnline this pe = (pings, Some e)"
    and "robustCall l this tc act n (Some (fst (assign_id rqid w)))
           (emit (pings @ [Observe (fst (assign_id rqid w)) (url (merge_t this tc)) e,
                           Delay (refetchDelay (robust this))])
              ((snd (assign_id rqid w))\<lparr> probes := ps \<rparr>)) = (r, w3)"
    and "is_resolved r"
    and "fetches w3 = Response st (Inr d) # fs" and "\<not> rsp_ok st"
  shows "fst (robustCall l this tc act n rqid w) =
           Rejected \<lparr> rej_deferredRequestId = fst (assign_id rqid w),
                      rej_url = url (merge_t this tc), rej_status = st, rej_error = ErrData d \<rparr>"
  using assms(3,4)
  by (simp add: robustCall_probe_failed[OF assms(1,2)] Let_def
      sending_application_error[OF assms(5,6)])

lemma application_error_rejects_first_attempt:
  assumes "probes w = pe # ps" and "isOnline this pe = (pings, None)"
    and "fetches w = Response st (Inr d) # fs" and "\<not> rsp_ok st"
  shows "robustCall l this tc act n rqid w =
           (let i = fst (assign_id rqid w);
                u = url (merge_t this tc);
                s = Rejected \<lparr> rej_deferredRequestId = i, rej_url = u, rej_status = st,
                               rej_error = ErrData d \<rparr>
            in (s, emit (pings @ [Fetch i n u (req_options (robust_request l this tc)), Settle i n s])
                     ((snd (assign_id rqid w))\<lparr> probes := ps, fetches := fs \<rparr>)))"
  using assms
  by (simp add: robustCall_probe_ok[OF assms(1,2)] sending_def attempt_def Let_def emit_def)

lemma application_error_after_failed_probe:
  assumes "probes w = pe # pe' # ps" and "isOnline this pe = (pings, Some e)"
    and "isOnline this pe' = (pings', None)"
    and "fetches w = Response st (Inr d) # fs" and "\<not> rsp_ok st"
  shows "fst (robustCall l this tc act n rqid w) = Pending"
proof -
  let ?i = "fst (assign_id rqid w)"
  let ?w2 = "emit (pings @ [Observe ?i (url (merge_t this tc)) e,
                            Delay (refetchDelay (robust this))])
               ((snd (assign_id rqid w))\<lparr> probes := pe' # ps \<rparr>)"
  have p2: "probes ?w2 = pe' # ps" by simp
  have f2: "fetches ?w2 = Response st (Inr d) # fs" using assms(4) by simp
  have "\<not> is_resolved (fst (robustCall l this tc act n (Some ?i) ?w2))"
    by (simp add: application_error_rejects_first_attempt[OF p2 assms(3) f2 assms(5)]
        Let_def is_resolved_def)
  then show ?thesis
    by (simp add: robustCall_probe_failed[OF assms(1,2)] Let_def case_prod_unfold)
qed

text \<open>
  C4. The claim is that a call whose attempt obtains a response with a failure status and
  a body that parses rejects at once with \<open>{requestId, url, status, error}\<close>, whatever the
  policy and the attempts left. The invocation that makes the attempt does call \<open>reject\<close>,
  with no retry and no call of the observer for it. But when that invocation is an inner
  one, the rejection does not reach the promise that the caller holds. After a failed
  probe the inner promise is rejected, the continuation that follows it in the chain is
  skipped and \<open>reject\<close> of the outer promise is never called; after a transport failure
  under \<open>defer\<close> the outer promise is not settled at all. Here the host reports no
  connectivity once and the fetch then gets a 403, and a first fetch gets no response and
  the second a 403: in both the inner invocation rejects and the promise of the call stays
  pending.
\<close>

theorem application_error_after_retry_leaves_call_pending:
  "(case robustCall plain_lib login no_transient ''defer'' 0 None
           (world0 [offline, online] [Response 403 (Inr forbidden)]) of
      (r, w) \<Rightarrow> (r, fetch_ids (trace w), settled (trace w)))
   = (Pending, [(1, 0)],
      [(1, 0, Rejected \<lparr> rej_deferredRequestId = 1, rej_url = login_url, rej_status = 403,
                           rej_error = ErrData forbidden \<rparr>)])
   \<and> (case robustCall plain_lib login no_transient ''defer'' 0 None
           (world0 [online, online] [NoResponse network_error, Response 403 (Inr forbidden)]) of
      (r, w) \<Rightarrow> (r, fetch_ids (trace w), settled (trace w)))
   = (Pending, [(1, 0), (2, 1)],
      [(2, 1, Rejected \<lparr> rej_deferredRequestId = 2, rej_url = login_url, rej_status = 403,
                           rej_error = ErrData forbidden \<rparr>)])"
  by code_simp

text \<open>
  C7. When the probe of an invocation fails, the failure of a host that reports no
  connectivity included, the observer is called with the request id, the url and the
  error, the delay is the configured \<open>refetchDelay\<close>, and \<open>robustCall\<close> is entered again
  with the same attempt index and the same request id, which it keeps. The handler of
  the probe failure settles nothing: the promise is settled only by the fetch that
  follows when the inner call is fulfilled, and stays pending otherwise.
\<close>

theorem probe_failure_reprobes_same_attempt:
  assumes "0 < nextDeferredRequestId w" and "probes w = pe # ps"
    and "isOnline this pe = (pings, Some e)"
  shows "let i = fst (assign_id rqid w);
             w2 = emit (pings @ [Observe i (url (merge_t this tc)) e,
                                 Delay (refetchDelay (robust this))])
                    ((snd (assign_id rqid w))\<lparr> probes := ps \<rparr>);
             (r, w3) = robustCall l this tc act n (Some i) w2
         in assign_id (Some i) w2 = (i, w2)
            \<and> robustCall l this tc act n rqid w =
                (if is_resolved r then sending l this tc act n i w3 else (Pending, w3))"
proof -
  have "0 < fst (assign_id rqid w)"
    using assms(1) by (simp add: assign_id_def split: option.split)
  then have "assign_id (Some (fst (assign_id rqid w))) w2 = (fst (assign_id rqid w), w2)" for w2
    by (simp add: assign_id_def)
  then show ?thesis
    by (simp add: robustCall_probe_failed[OF assms(2,3)] Let_def case_prod_unfold)
qed

theorem probe_failure_reprobes_same_attempt_witness:
  "0 < nextDeferredRequestId (world0 [offline, online] [Response 200 (Inr token), Response 200 (Inr token)])
   \<and> probes (world0 [offline, online] [Response 200 (Inr token), Response 200 (Inr token)]) = offline # [online]
   \<and> isOnline login offline = ([], Some \<lparr> message = ''not online'', status = None \<rparr>)
   \<and> (let i = fst (assign_id None (world0 [offline, online] [Response 200 (Inr token), Response 200 (Inr token)]));
             w2 = emit ([] @ [Observe i (url (merge_t login no_transient)) \<lparr> message = ''not online'', status = None \<rparr>,
                                 Delay (refetchDelay (robust login))])
                    ((snd (assign_id None (world0 [offline, online] [Response 200 (Inr token), Response 200 (Inr token)])))\<lparr> probes := [online] \<rparr>);
             (r, w3) = robustCall plain_lib login no_transient ''defer'' 0 (Some i) w2
         in assign_id (Some i) w2 = (i, w2)
            \<and> robustCall plain_lib login no_transient ''defer'' 0 None
                 (world0 [offline, online] [Response 200 (Inr token), Response 200 (Inr token)]) =
                (if is_resolved r then sending plain_lib login no_transient ''defer'' 0 i w3 else (Pending, w3)))
   \<and> observed (trace (snd (robustCall plain_lib login no_transient ''defer'' 0 None
        (world0 [offline, online] [Response 200 (Inr token), Response 200 (Inr token)]))))
      = [(1, login_url, \<lparr> message = ''not online'', status = None \<rparr>)]
   \<and> fetch_ids (trace (snd (robustCall plain_lib login no_transient ''defer'' 0 None
        (world0 [offline, online] [Response 200 (Inr token), Response 200 (Inr token)]))))
      = [(1, 0), (1, 0)]
   \<and> fst (robustCall plain_lib login no_transient ''defer'' 0 None
        (world0 [offline, online] [Response 200 (Inr token), Response 200 (Inr token)]))
      = Resolved (Some \<lparr> res_deferredRequestId = 1, res_data = token \<rparr>)"
proof -
  let ?w = "world0 [offline, online] [Response 200 (Inr token), Response 200 (Inr token)]"
  have h1: "0 < nextDeferredRequestId ?w" by (simp add: world0_def)
  have h2: "probes ?w = offline # [online]" by (simp add: world0_def)
  have h3: "isOnline login offline = ([], Some \<lparr> message = ''not online'', status = None \<rparr>)"
    by (simp add: isOnline_def offline_def)
  note c = probe_failure_reprobes_same_attempt[where l=plain_lib and tc=no_transient
      and act="''defer''" and n=0 and rqid=None, OF h1 h2 h3]
  have e1: "observed (trace (snd (robustCall plain_lib login no_transient ''defer'' 0 None ?w)))
      = [(1, login_url, \<lparr> message = ''not online'', status = None \<rparr>)]"
    by code_simp
  have e2: "fetch_ids (trace (snd (robustCall plain_lib login no_transient ''defer'' 0 None ?w)))
      = [(1, 0), (1, 0)]"
    by code_simp
  have e3: "fst (robustCall plain_lib login no_transient ''defer'' 0 None ?w)
      = Resolved (Some \<lparr> res_deferredRequestId = 1, res_data = token \<rparr>)"
    by code_simp
  show ?thesis
    by (intro conjI h1 h2 h3 c e1 e2 e3)
qed

subsection \<open>Retries after a transport failure\<close>

text \<open>
  A fetch that fails without a response: under \<open>fail\<close> the invocation rejects with status
  0; under \<open>defer\<close> the observer is called, the delay is the merged \<open>refetchDelay\<close>, and
  \<open>robustCall\<close> is called with the next attempt index and no request id, while the
  promise of the invocation itself stays pending whatever the inner call does.
\<close>

lemma transport_failure_fail_rejects:
  assumes "probes w = pe # ps" and "isOnline this pe = (pings, None)"
    and "fetches w = NoResponse e # fs" and "status e = None"
  shows "robustCall l this tc ''fail'' n rqid w =
           (let i = fst (assign_id rqid w);
                u = url (merge_t this tc);
                s = Rejected \<lparr> rej_deferredRequestId = i, rej_url = u, rej_status = 0,
                               rej_error = ErrRaw e \<rparr>
            in (s, emit (pings @ [Fetch i n u (req_options (robust_request l this tc)), Settle i n s])
                     ((snd (assign_id rqid w))\<lparr> probes := ps, fetches := fs \<rparr>)))"
  using assms
  by (simp add: robustCall_probe_ok[OF assms(1,2)] sending_def on_error_def attempt_def Let_def emit_def)

lemma transport_failure_defer_detaches:
  assumes "probes w = pe # ps" and "isOnline this pe = (pings, None)"
    and "fetches w = NoResponse e # fs" and "status e = None"
  shows "robustCall l this tc ''defer'' n rqid w =
           (let i = fst (assign_id rqid w);
                m = merge_t this tc;
                w5 = emit (pings @ [Fetch i n (url m) (req_options (robust_request l this tc)),
                                    Observe i (url m) e, Delay (refetchDelay (robust m))])
                       ((snd (assign_id rqid w))\<lparr> probes := ps, fetches := fs \<rparr>)
            in (Pending,
                snd (robustCall l this tc (if n < maxTries (robust m) then ''defer'' else ''fail'')
                       (n + 1) None w5)))"
  using assms
  by (simp add: robustCall_probe_ok[OF assms(1,2)] sending_def on_error_def attempt_def Let_def
      emit_def case_prod_unfold split del: if_split)

lemma fetch_ids_simps:
  "fetch_ids (a @ b) = fetch_ids a @ fetch_ids b"
  "fetch_ids [] = []"
  "fetch_ids (Fetch i n u opts # tr) = (i, n) # fetch_ids tr"
  "fetch_ids (Observe i u e # tr) = fetch_ids tr"
  "fetch_ids (Delay d # tr) = fetch_ids tr"
  "fetch_ids (Settle i n s # tr) = fetch_ids tr"
  "fetch_ids (Ping p # tr) = fetch_ids tr"
  by (simp_all add: fetch_ids_def)

text \<open>
  A call whose probes all succeed and whose fetches all fail without a response: with
  enough answers ready, a call that starts at attempt index \<open>n \<le> maxTries\<close> under \<open>defer\<close>
  makes \<open>maxTries - n + 2\<close> fetches, that is \<open>maxTries + 2\<close> from index 0.
\<close>

lemma failing_attempts_count:
  assumes "probes_succeed this (probes w)" and "no_response (fetches w)"
    and "n \<le> maxTries (robust (merge_t this tc))"
    and "maxTries (robust (merge_t this tc)) - n + 2 \<le> length (probes w)"
    and "maxTries (robust (merge_t this tc)) - n + 2 \<le> length (fetches w)"
  shows "length (fetch_ids (trace (snd (robustCall l this tc ''defer'' n rqid w))))
           = length (fetch_ids (trace w)) + (maxTries (robust (merge_t this tc)) - n + 2)"
  using assms
proof (induction "maxTries (robust (merge_t this tc)) - n" arbitrary: n rqid w)
  case 0
  let ?M = "maxTries (robust (merge_t this tc))"
  from 0 have nM: "\<not> n < ?M" and M0: "?M - n = 0" by simp_all
  obtain pe ps where pw: "probes w = pe # ps"
    using "0.prems"(4) by (cases "probes w") auto
  obtain f fs where fw: "fetches w = f # fs"
    using "0.prems"(5) by (cases "fetches w") auto
  obtain pe' ps' where ps: "ps = pe' # ps'"
    using "0.prems"(4) pw by (cases ps) auto
  obtain f' fs' where fs: "fs = f' # fs'"
    using "0.prems"(5) fw by (cases fs) auto
  obtain pings where o: "isOnline this pe = (pings, None)"
    using "0.prems"(1) pw by (cases "isOnline this pe") (auto simp: probes_succeed_def)
  obtain pings' where o': "isOnline this pe' = (pings', None)"
    using "0.prems"(1) pw ps by (cases "isOnline this pe'") (auto simp: probes_succeed_def)
  obtain e where f: "f = NoResponse e" "status e = None"
    using "0.prems"(2) fw by (cases f) (auto simp: no_response_def)
  obtain e' where f': "f' = NoResponse e'" "status e' = None"
    using "0.prems"(2) fw fs by (cases f') (auto simp: no_response_def)
  have np: "fetch_ids pings = []" "fetch_ids pings' = []"
    using isOnline_only_pings[OF o] isOnline_only_pings[OF o'] by simp_all
  define i where "i = fst (assign_id rqid w)"
  define w5 where "w5 = emit (pings @ [Fetch i n (url (merge_t this tc)) (req_options (robust_request l this tc)),
                                    Observe i (url (merge_t this tc)) e, Delay (refetchDelay (robust (merge_t this tc)))])
                       ((snd (assign_id rqid w))\<lparr> probes := ps, fetches := fs \<rparr>)"
  have p5: "probes w5 = pe' # ps'" and f5: "fetches w5 = NoResponse e' # fs'"
    by (simp_all add: w5_def ps fs f')
  have t5: "fetch_ids (trace w5) = fetch_ids (trace w) @ [(i, n)]"
    by (simp add: w5_def fetch_ids_simps np)
  have step: "robustCall l this tc ''defer'' n rqid w = (Pending, snd (robustCall l this tc ''fail'' (n + 1) None w5))"
    using transport_failure_defer_detaches[OF pw o _ f(2), of fs l tc n rqid] fw f(1) nM
    by (simp add: Let_def w5_def i_def)
  have last: "fetch_ids (trace (snd (robustCall l this tc ''fail'' (n + 1) None w5)))
                = fetch_ids (trace w5) @ [(fst (assign_id None w5), n + 1)]"
    by (simp add: transport_failure_fail_rejects[OF p5 o' f5 f'(2)] Let_def fetch_ids_simps np)
  show ?case using step last t5 M0 by simp
next
  case (Suc k)
  let ?M = "maxTries (robust (merge_t this tc))"
  from Suc(2) have nM: "n < ?M" and k: "k = ?M - (n + 1)" by simp_all
  obtain pe ps where pw: "probes w = pe # ps"
    using Suc.prems(4) by (cases "probes w") auto
  obtain f fs where fw: "fetches w = f # fs"
    using Suc.prems(5) by (cases "fetches w") auto
  obtain pings where o: "isOnline this pe = (pings, None)"
    using Suc.prems(1) pw by (cases "isOnline this pe") (auto simp: probes_succeed_def)
  obtain e where f: "f = NoResponse e" "status e = None"
    using Suc.prems(2) fw by (cases f) (auto simp: no_response_def)
  have np: "fetch_ids pings = []"
    using isOnline_only_pings[OF o] by simp
  define i where "i = fst (assign_id rqid w)"
  define w5 where "w5 = emit (pings @ [Fetch i n (url (merge_t this tc)) (req_options (robust_request l this tc)),
                                    Observe i (url (merge_t this tc)) e, Delay (refetchDelay (robust (merge_t this tc)))])
                       ((snd (assign_id rqid w))\<lparr> probes := ps, fetches := fs \<rparr>)"
  have p5: "probes w5 = ps" and f5: "fetches w5 = fs" by (simp_all add: w5_def)
  have t5: "fetch_ids (trace w5) = fetch_ids (trace w) @ [(i, n)]"
    by (simp add: w5_def fetch_ids_simps np)
  have step: "robustCall l this tc ''defer'' n rqid w = (Pending, snd (robustCall l this tc ''defer'' (n + 1) None w5))"
    using transport_failure_defer_detaches[OF pw o _ f(2), of fs l tc n rqid] fw f(1) nM
    by (simp add: Let_def w5_def i_def)
  have IH: "length (fetch_ids (trace (snd (robustCall l this tc ''defer'' (n + 1) None w5))))
           = length (fetch_ids (trace w5)) + (?M - (n + 1) + 2)"
    apply (rule Suc.hyps(1)[OF k])
    using Suc.prems pw fw nM by (simp_all add: p5 f5 probes_succeed_def no_response_def)
  show ?case using step IH t5 nM by simp
qed

text \<open>
  C1. The claim is that every attempt of one logical call carries the request id assigned
  on the first invocation. The retry after a probe failure passes the id on; the retry
  after a transport failure calls \<open>robustCall\<close> with four arguments, so \<open>_rqid\<close> is \<open>null\<close>
  and the counter gives a new id. Here the first fetch gets no response and the second a
  200: the first attempt carries id 1, the second and the resolution carry id 2.
\<close>

theorem transport_retry_takes_new_request_id:
  "(case robustCall plain_lib login no_transient ''defer'' 0 None
           (world0 [online, online] [NoResponse network_error, Response 200 (Inr token)]) of
      (r, w) \<Rightarrow> (fetch_ids (trace w), observed (trace w), settled (trace w)))
   = ([(1, 0), (2, 1)],
      [(1, login_url, network_error)],
      [(2, 1, Resolved (Some \<lparr> res_deferredRequestId = 2, res_data = token \<rparr>))])"
  by code_simp

text \<open>
  C2. The claim is that after \<open>maxTries - 1\<close> attempts without a response and a 200 on the
  next, the promise of the original invocation resolves with the request id and the
  data. With \<open>maxTries = 3\<close>: the observer is called twice, as claimed, and the third
  attempt resolves the promise of the innermost invocation with id 3; \<open>resolve\<close> of the
  original promise is never called, it stays pending.
\<close>

theorem original_promise_pending_after_retry:
  "(case robustCall plain_lib (with_maxTries 3 login) no_transient ''defer'' 0 None
           (world0 [online, online, online]
              [NoResponse network_error, NoResponse network_error, Response 200 (Inr token)]) of
      (r, w) \<Rightarrow> (r, length (observed (trace w)), settled (trace w)))
   = (Pending, 2,
      [(3, 2, Resolved (Some \<lparr> res_deferredRequestId = 3, res_data = token \<rparr>))])"
  by code_simp

text \<open>
  C3. The claim is that a call whose attempts all fail without a response makes at most
  \<open>maxTries + 1\<close> attempts and then rejects. The policy of the next attempt becomes \<open>fail\<close>
  when \<open>_n < maxTries\<close> is false for the current attempt, that is from attempt index
  \<open>maxTries\<close> on, not from \<open>maxTries - 1\<close> on. With \<open>maxTries = 2\<close> and six answers ready,
  four attempts are made, with indices 0 to 3; the rejection is made on the promise of
  the fourth invocation, and the original promise stays pending.
\<close>

theorem failing_call_makes_maxTries_plus_two_attempts:
  "(case robustCall plain_lib (with_maxTries 2 login) no_transient ''defer'' 0 None
           (world0 (replicate 6 online) (replicate 6 (NoResponse network_error))) of
      (r, w) \<Rightarrow> (r, fetch_ids (trace w), settled (trace w), length (fetches w)))
   = (Pending,
      [(1, 0), (2, 1), (3, 2), (4, 3)],
      [(4, 3, Rejected \<lparr> rej_deferredRequestId = 4, rej_url = login_url, rej_status = 0,
                           rej_error = ErrRaw network_error \<rparr>)],
      2)"
  by code_simp

end
